theory Spec2Isabelle
  imports Main
begin

section \<open>Values of the Go program\<close>

text \<open>
  Go's \<open>int\<close> is taken as the 64-bit signed integer of the usual targets. Values are
  kept as \<open>int\<close>; \<open>wrap64\<close> is the two's-complement wrap-around that Go applies to the
  result of \<open>+\<close>, \<open>-\<close> and \<open>*\<close>.
\<close>

definition wrap64 :: "int \<Rightarrow> int" where
  "wrap64 x = (x + 9223372036854775808) mod 18446744073709551616 - 9223372036854775808"

definition MinInt64 :: int where
  "MinInt64 = - 9223372036854775808"

definition MaxInt64 :: int where
  "MaxInt64 = 9223372036854775807"

text \<open>
  \<open>strconv.Atoi\<close> (standard library): an optional sign, then one or more decimal digits
  and nothing else; a value outside the range of \<open>int\<close> is an error.
\<close>

fun digits :: "nat \<Rightarrow> string \<Rightarrow> nat option" where
  "digits n [] = Some n"
| "digits n (c # cs) =
     (if 48 \<le> (of_char c :: nat) \<and> (of_char c :: nat) \<le> 57
      then digits (n * 10 + ((of_char c :: nat) - 48)) cs
      else None)"

definition unsigned :: "string \<Rightarrow> nat option" where
  "unsigned s = (if s = [] then None else digits 0 s)"

definition inRange :: "int \<Rightarrow> int option" where
  "inRange v = (if MinInt64 \<le> v \<and> v \<le> MaxInt64 then Some v else None)"

definition Atoi :: "string \<Rightarrow> int option" where
  "Atoi s =
     (case s of
        [] \<Rightarrow> None
      | c # cs \<Rightarrow>
          if c = CHR ''-'' then
            (case unsigned cs of None \<Rightarrow> None | Some n \<Rightarrow> inRange (- int n))
          else if c = CHR ''+'' then
            (case unsigned cs of None \<Rightarrow> None | Some n \<Rightarrow> inRange (int n))
          else
            (case unsigned s of None \<Rightarrow> None | Some n \<Rightarrow> inRange (int n)))"

text \<open>
  \<open>time.Time\<close> is an instant: the number of nanoseconds since January 1, year 1,
  00:00:00 UTC, which is the zero \<open>Time\<close>. \<open>time.Duration\<close> is a 64-bit count of
  nanoseconds.
\<close>

type_synonym Time = int

definition IsZero :: "Time \<Rightarrow> bool" where
  "IsZero t = (t = 0)"

definition After :: "Time \<Rightarrow> Time \<Rightarrow> bool" where
  "After t u = (u < t)"

definition Before :: "Time \<Rightarrow> Time \<Rightarrow> bool" where
  "Before t u = (t < u)"

definition Add :: "Time \<Rightarrow> int \<Rightarrow> Time" where
  "Add t d = t + d"

definition Second :: int where
  "Second = 1000000000"

text \<open>
  \<open>http.Header\<close> is a map from canonical header names to the list of the values of
  that name; \<open>Get\<close> is the first value, or the empty string.
\<close>

type_synonym Header = "string \<rightharpoonup> string list"

definition Header_Get :: "Header \<Rightarrow> string \<Rightarrow> string" where
  "Header_Get h key = (case h key of None \<Rightarrow> [] | Some [] \<Rightarrow> [] | Some (v # _) \<Rightarrow> v)"

section \<open>header.go\<close>

datatype error =
    ErrorInvalidMaxAge
  | ErrorMaxAgeNotFound
  | ErrorInvalidAge
  | ErrorAgeNotFound
  | ErrorInvalidResponseDate
  | ErrorInvalidExpireDate
  | TransportError string

type_synonym CacheControl = "string \<rightharpoonup> string"

definition cacheControlKeyMaxAge :: string where
  "cacheControlKeyMaxAge = ''max-age''"

definition cacheControlKeyPublic :: string where
  "cacheControlKeyPublic = ''public''"

definition cacheControlKeyPrivate :: string where
  "cacheControlKeyPrivate = ''private''"

definition MaxAge :: "CacheControl \<Rightarrow> error + int" where
  "MaxAge c =
     (case c cacheControlKeyMaxAge of
        None \<Rightarrow> Inl ErrorMaxAgeNotFound
      | Some v \<Rightarrow> (case Atoi v of None \<Rightarrow> Inl ErrorInvalidMaxAge | Some maxAge \<Rightarrow> Inr maxAge))"

definition Public :: "CacheControl \<Rightarrow> bool" where
  "Public c = (c cacheControlKeyPublic \<noteq> None)"

definition Private :: "CacheControl \<Rightarrow> bool" where
  "Private c = (c cacheControlKeyPrivate \<noteq> None)"

definition ageFromHeader :: "Header \<Rightarrow> error + int" where
  "ageFromHeader h =
     (case Atoi (Header_Get h ''Age'') of None \<Rightarrow> Inl ErrorInvalidMaxAge | Some age \<Rightarrow> Inr age)"

text \<open>
  \<open>http.ParseTime\<close> belongs to the standard library; the functions that call it take it
  as the argument \<open>parseTime\<close>, \<open>None\<close> standing for its error.
\<close>

type_synonym ParseTime = "string \<Rightarrow> Time option"

definition timeFromHeader :: "ParseTime \<Rightarrow> Header \<Rightarrow> string \<Rightarrow> Time option" where
  "timeFromHeader parseTime h key = parseTime (Header_Get h key)"

definition expiresFromHeader :: "ParseTime \<Rightarrow> Header \<Rightarrow> error + Time" where
  "expiresFromHeader parseTime h =
     (case timeFromHeader parseTime h ''Expires'' of
        None \<Rightarrow> Inl ErrorInvalidExpireDate
      | Some v \<Rightarrow> Inr v)"

definition dateFromHeader :: "ParseTime \<Rightarrow> Header \<Rightarrow> error + Time" where
  "dateFromHeader parseTime h =
     (case timeFromHeader parseTime h ''Date'' of
        None \<Rightarrow> Inl ErrorInvalidResponseDate
      | Some v \<Rightarrow> Inr v)"

text \<open>
  \<open>strings.TrimSpace\<close> (standard library) removes from both ends the code points for
  which \<open>unicode.IsSpace\<close> holds. A Go string is a sequence of bytes: \<open>spaceRunes\<close>
  lists the UTF-8 encodings of those code points (U+0009 to U+000D, U+0020, U+0085,
  U+00A0, U+1680, U+2000 to U+200A, U+2028, U+2029, U+202F, U+205F, U+3000).
\<close>

definition spaceRunes :: "string list" where
  "spaceRunes =
     [[CHR 0x09], [CHR 0x0A], [CHR 0x0B], [CHR 0x0C], [CHR 0x0D], [CHR 0x20],
      [CHR 0xC2, CHR 0x85], [CHR 0xC2, CHR 0xA0], [CHR 0xE1, CHR 0x9A, CHR 0x80],
      [CHR 0xE2, CHR 0x80, CHR 0x80], [CHR 0xE2, CHR 0x80, CHR 0x81],
      [CHR 0xE2, CHR 0x80, CHR 0x82], [CHR 0xE2, CHR 0x80, CHR 0x83],
      [CHR 0xE2, CHR 0x80, CHR 0x84], [CHR 0xE2, CHR 0x80, CHR 0x85],
      [CHR 0xE2, CHR 0x80, CHR 0x86], [CHR 0xE2, CHR 0x80, CHR 0x87],
      [CHR 0xE2, CHR 0x80, CHR 0x88], [CHR 0xE2, CHR 0x80, CHR 0x89],
      [CHR 0xE2, CHR 0x80, CHR 0x8A], [CHR 0xE2, CHR 0x80, CHR 0xA8],
      [CHR 0xE2, CHR 0x80, CHR 0xA9], [CHR 0xE2, CHR 0x80, CHR 0xAF],
      [CHR 0xE2, CHR 0x81, CHR 0x9F], [CHR 0xE3, CHR 0x80, CHR 0x80]]"

text \<open>The number of bytes of the space the string starts with; 0 when it starts with none.\<close>

definition spaceLen :: "string list \<Rightarrow> string \<Rightarrow> nat" where
  "spaceLen runes s =
     (case find (\<lambda>p. p \<noteq> [] \<and> take (length p) s = p) runes of
        None \<Rightarrow> 0
      | Some p \<Rightarrow> length p)"

function trimLeft :: "string list \<Rightarrow> string \<Rightarrow> string" where
  "trimLeft runes s =
     (if spaceLen runes s = 0 then s else trimLeft runes (drop (spaceLen runes s) s))"
  by pat_completeness auto
termination
proof (relation "measure (\<lambda>(runes, s). length s)")
  show "wf (measure (\<lambda>(runes, s). length s))" by simp
next
  fix runes :: "string list" and s :: string
  assume a: "spaceLen runes s \<noteq> 0"
  then obtain p where "p \<noteq> []" and "take (length p) s = p"
    by (auto simp: spaceLen_def find_Some_iff split: option.splits)
  then have "s \<noteq> []" by auto
  with a show "((runes, drop (spaceLen runes s) s), (runes, s)) \<in> measure (\<lambda>(runes, s). length s)"
    by simp
qed

declare trimLeft.simps [simp del]

definition TrimSpace :: "string \<Rightarrow> string" where
  "TrimSpace s = rev (trimLeft (map rev spaceRunes) (rev (trimLeft spaceRunes s)))"

text \<open>
  \<open>strings.Split(s, sep)\<close> for a separator of one byte: the pieces of \<open>s\<close> between
  all the occurrences of the separator, one more piece than there are separators.
\<close>

fun Split :: "char \<Rightarrow> string \<Rightarrow> string list" where
  "Split sep [] = [[]]"
| "Split sep (c # cs) =
     (if c = sep then [] # Split sep cs
      else (case Split sep cs of [] \<Rightarrow> [[c]] | p # ps \<Rightarrow> (c # p) # ps))"

definition splitCacheControl :: "string \<Rightarrow> string list" where
  "splitCacheControl s = Split CHR '','' (TrimSpace s)"

definition splitCacheControlKeyValue :: "string \<Rightarrow> string list" where
  "splitCacheControlKeyValue s = Split CHR ''='' (TrimSpace s)"

text \<open>
  \<open>setDirective\<close> is the body of the innermost loop of \<open>newCacheControl\<close>. The outer
  loop ranges over the whole header and skips every name but \<open>Cache-Control\<close>, so only
  the values of that name are visited, in their order.
\<close>

definition setDirective :: "CacheControl \<Rightarrow> string \<Rightarrow> CacheControl" where
  "setDirective cc vvv =
     (let kv = splitCacheControlKeyValue vvv
      in if length kv = 2 then cc(kv ! 0 \<mapsto> kv ! 1)
         else if length kv = 1 then cc(kv ! 0 \<mapsto> [])
         else cc)"

definition newCacheControl :: "Header \<Rightarrow> CacheControl" where
  "newCacheControl h =
     (case h ''Cache-Control'' of
        None \<Rightarrow> Map.empty
      | Some v \<Rightarrow> foldl (\<lambda>cc vv. foldl setDirective cc (splitCacheControl vv)) Map.empty v)"

section \<open>freshness.go\<close>

datatype Freshness = FreshnessFresh | FreshnessStale | FreshnesTransparent

text \<open>The \<open>Clock\<close> is represented by the instant its \<open>Now()\<close> returns.\<close>

type_synonym Clock = Time

definition freshnessFromMaxAge :: "int \<Rightarrow> Time \<Rightarrow> Clock \<Rightarrow> Freshness" where
  "freshnessFromMaxAge maxAge responseDated clock =
     (if maxAge \<le> 0 then FreshnessStale
      else if IsZero responseDated then FreshnessStale
      else if After clock (Add responseDated (wrap64 (maxAge * Second))) then FreshnessStale
      else FreshnessFresh)"

definition freshnessFromExpire :: "Time \<Rightarrow> Time \<Rightarrow> Freshness" where
  "freshnessFromExpire expireTime responseDated =
     (if IsZero expireTime then FreshnesTransparent
      else if Before expireTime responseDated then FreshnessStale
      else FreshnessFresh)"

definition freshnessFromAge :: "int \<Rightarrow> int \<Rightarrow> Freshness" where
  "freshnessFromAge age maxAge =
     (if 0 < wrap64 (maxAge - age) then FreshnessFresh else FreshnessStale)"

text \<open>
  A \<open>freshnessChecker\<close> is its method \<open>Freshness\<close>, a function of the header and of the
  directive set (the context is not used by any checker).
\<close>

type_synonym freshnessChecker = "Header \<Rightarrow> CacheControl \<Rightarrow> error + Freshness"

text \<open>
  The methods \<open>IsPresent\<close>, \<open>NoStore\<close>, \<open>NoCache\<close> and \<open>NoCacheEquivalent\<close> of
  \<open>CacheControl\<close> are called by the files under src/ and declared in none of them: the
  callers take them in a record.
\<close>

record methods =
  IsPresent :: "CacheControl \<Rightarrow> bool"
  NoStore :: "CacheControl \<Rightarrow> bool"
  NoCache :: "CacheControl \<Rightarrow> bool"
  NoCacheEquivalent :: "CacheControl \<Rightarrow> bool"

definition maxAgeFreshnessChecker ::
    "ParseTime \<Rightarrow> freshnessChecker \<Rightarrow> Clock \<Rightarrow> freshnessChecker" where
  "maxAgeFreshnessChecker parseTime next clock header cacheControlHeader =
     (case MaxAge cacheControlHeader of
        Inl err \<Rightarrow> next header cacheControlHeader
      | Inr maxAge \<Rightarrow>
          (case dateFromHeader parseTime header of
             Inl err \<Rightarrow> next header cacheControlHeader
           | Inr date \<Rightarrow> Inr (freshnessFromMaxAge maxAge date clock)))"

definition expireFreshnessChecker :: "ParseTime \<Rightarrow> freshnessChecker \<Rightarrow> freshnessChecker" where
  "expireFreshnessChecker parseTime next header cacheControlHeader =
     (case expiresFromHeader parseTime header of
        Inl err \<Rightarrow> next header cacheControlHeader
      | Inr expires \<Rightarrow>
          (case dateFromHeader parseTime header of
             Inl err \<Rightarrow> next header cacheControlHeader
           | Inr date \<Rightarrow> Inr (freshnessFromExpire expires date)))"

definition ageFreshnessChecker :: "freshnessChecker \<Rightarrow> freshnessChecker" where
  "ageFreshnessChecker next header cacheControlHeader =
     (case MaxAge cacheControlHeader of
        Inl err \<Rightarrow> next header cacheControlHeader
      | Inr maxAge \<Rightarrow>
          (case ageFromHeader header of
             Inl err \<Rightarrow> next header cacheControlHeader
           | Inr age \<Rightarrow> Inr (freshnessFromAge age maxAge)))"

definition noCacheFreshness :: "methods \<Rightarrow> freshnessChecker \<Rightarrow> freshnessChecker" where
  "noCacheFreshness m next header cacheControlHeader =
     (if NoCache m cacheControlHeader then Inr FreshnessStale
      else if NoCacheEquivalent m cacheControlHeader then Inr FreshnessStale
      else next header cacheControlHeader)"

definition transparentFreshness :: freshnessChecker where
  "transparentFreshness header cacheControlHeader = Inr FreshnesTransparent"

definition newFreshnerChecker :: "methods \<Rightarrow> ParseTime \<Rightarrow> Clock \<Rightarrow> freshnessChecker" where
  "newFreshnerChecker m parseTime clock =
     noCacheFreshness m
       (ageFreshnessChecker
          (maxAgeFreshnessChecker parseTime
             (expireFreshnessChecker parseTime transparentFreshness) clock))"

section \<open>The transport and the HTTP cache\<close>

record Request =
  Method :: string
  URL :: string
  RequestHeader :: Header

record Response =
  StatusCode :: int
  Header :: Header
  Body :: string

definition isCached :: "Response \<Rightarrow> bool" where
  "isCached r = (Header_Get (Header r) ''X-Cache'' = ''HIT'')"

text \<open>
  The storage backend is the interface \<open>Cache\<close> with \<open>Get\<close>, \<open>Set\<close> and \<open>Delete\<close>,
  implemented outside src/. It is represented by the entries it holds, snapshots of
  responses by key, together with the journal of the calls made on it. \<open>net\<close> is the
  state of whatever stands behind the \<open>http.RoundTripper\<close>: a fetch reads and changes
  it, and returns a response or an error.
\<close>

datatype call = CacheGet string | CacheSet string Response | CacheDelete string

record 'n World =
  store :: "string \<rightharpoonup> Response"
  journal :: "call list"
  net :: 'n

type_synonym 'n RoundTripper = "Request \<Rightarrow> 'n \<Rightarrow> (error + Response) \<times> 'n"

text \<open>
  What the transport calls and src/ does not declare: the four methods of
  \<open>CacheControl\<close>, \<open>buildCacheKey\<close>, \<open>withCacheHitHeader\<close>, and the method \<open>Validate\<close> of
  the validator that \<open>newResponseValidator\<close> builds from the round tripper; with them
  \<open>http.ParseTime\<close>.
\<close>

record 'n env =
  ccMethods :: methods
  parseTime :: ParseTime
  buildCacheKey :: "Request \<Rightarrow> string"
  withCacheHitHeader :: "Header \<Rightarrow> Header"
  Validate :: "'n RoundTripper \<Rightarrow> Response \<Rightarrow> Request \<Rightarrow> 'n \<Rightarrow> (error + Response) \<times> 'n"

definition HTTPCache_Get :: "'n env \<Rightarrow> Request \<Rightarrow> 'n World \<Rightarrow> Response option \<times> 'n World" where
  "HTTPCache_Get e r w =
     (let cacheKey = buildCacheKey e r
      in (store w cacheKey, w\<lparr>journal := journal w @ [CacheGet cacheKey]\<rparr>))"

definition HTTPCache_Set :: "'n env \<Rightarrow> Request \<Rightarrow> Response \<Rightarrow> 'n World \<Rightarrow> 'n World" where
  "HTTPCache_Set e r response w =
     (let cacheKey = buildCacheKey e r
      in w\<lparr>store := (store w)(cacheKey \<mapsto> response),
           journal := journal w @ [CacheSet cacheKey response]\<rparr>)"

definition HTTPCache_Delete :: "'n env \<Rightarrow> Request \<Rightarrow> 'n World \<Rightarrow> 'n World" where
  "HTTPCache_Delete e r w =
     (let cacheKey = buildCacheKey e r
      in w\<lparr>store := (store w)(cacheKey := None),
           journal := journal w @ [CacheDelete cacheKey]\<rparr>)"

text \<open>
  The fields of \<open>Transport\<close>. The field \<open>cache\<close> is the backend of the \<open>World\<close>; the
  field \<open>freshnessChecker\<close> is set by \<open>NewTransport\<close>, the only constructor, to
  \<open>newFreshnerChecker(t.clock)\<close> after the options have run, and no option can reach it:
  it is the function \<open>freshnessChecker\<close> of the other fields.
\<close>

record 'n Transport =
  clock :: Clock
  rt :: "'n RoundTripper"
  shouldCachePrivateResponses :: bool

type_synonym 'n TransportOption = "'n Transport \<Rightarrow> 'n Transport"

definition WithClock :: "Clock \<Rightarrow> 'n TransportOption" where
  "WithClock c t = t\<lparr>clock := c\<rparr>"

definition CachePrivateResponse :: "bool \<Rightarrow> 'n TransportOption" where
  "CachePrivateResponse v t = t\<lparr>shouldCachePrivateResponses := v\<rparr>"

text \<open>\<open>NewClock()\<close> is the clock of the machine; \<open>now\<close> is what it reads.\<close>

definition NewTransport :: "Clock \<Rightarrow> 'n RoundTripper \<Rightarrow> 'n TransportOption list \<Rightarrow> 'n Transport" where
  "NewTransport now roundTripper opts =
     foldl (\<lambda>t opt. opt t)
       \<lparr>clock = now, rt = roundTripper, shouldCachePrivateResponses = False\<rparr> opts"

definition freshnessChecker :: "'n env \<Rightarrow> 'n Transport \<Rightarrow> freshnessChecker" where
  "freshnessChecker e t = newFreshnerChecker (ccMethods e) (parseTime e) (clock t)"

definition roundTripWithCachedResponse ::
    "'n env \<Rightarrow> 'n Transport \<Rightarrow> Response \<Rightarrow> Request \<Rightarrow> 'n World \<Rightarrow> (error + Response) \<times> 'n World" where
  "roundTripWithCachedResponse e t response r w =
     (let cacheControl = newCacheControl (Header response)
      in case freshnessChecker e t (Header response) cacheControl of
           Inl err \<Rightarrow> (Inl err, w)
         | Inr FreshnessFresh \<Rightarrow>
             (Inr (response\<lparr>Header := withCacheHitHeader e (Header response)\<rparr>), w)
         | Inr FreshnessStale \<Rightarrow>
             (case Validate e (rt t) response r (net w) of
                (Inl err, n) \<Rightarrow> (Inl err, w\<lparr>net := n\<rparr>)
              | (Inr response', n) \<Rightarrow>
                  if NoStore (ccMethods e) cacheControl
                  then (Inr response', HTTPCache_Delete e r (w\<lparr>net := n\<rparr>))
                  else if isCached response' then (Inr response', w\<lparr>net := n\<rparr>)
                  else (Inr response', HTTPCache_Set e r response' (w\<lparr>net := n\<rparr>)))
         | Inr FreshnesTransparent \<Rightarrow>
             (case rt t r (net w) of (result, n) \<Rightarrow> (result, w\<lparr>net := n\<rparr>)))"

definition RoundTrip ::
    "'n env \<Rightarrow> 'n Transport \<Rightarrow> Request \<Rightarrow> 'n World \<Rightarrow> (error + Response) \<times> 'n World" where
  "RoundTrip e t r w =
     (case HTTPCache_Get e r w of
        (Some response, w1) \<Rightarrow> roundTripWithCachedResponse e t response r w1
      | (None, w1) \<Rightarrow>
          (case rt t r (net w1) of
             (Inl err, n) \<Rightarrow> (Inl err, w1\<lparr>net := n\<rparr>)
           | (Inr response, n) \<Rightarrow>
               (let cacheControl = newCacheControl (Header response)
                in if \<not> IsPresent (ccMethods e) cacheControl then (Inr response, w1\<lparr>net := n\<rparr>)
                   else if NoStore (ccMethods e) cacheControl then (Inr response, w1\<lparr>net := n\<rparr>)
                   else if NoCache (ccMethods e) cacheControl
                           \<or> NoCacheEquivalent (ccMethods e) cacheControl
                   then (Inr response, w1\<lparr>net := n\<rparr>)
                   else if \<not> shouldCachePrivateResponses t \<and> Private cacheControl
                   then (Inr response, w1\<lparr>net := n\<rparr>)
                   else (Inr response, HTTPCache_Set e r response (w1\<lparr>net := n\<rparr>)))))"

section \<open>The directive set in the words of the specification\<close>

text \<open>
  The tokens of the occurrences of a header: each occurrence is trimmed and split on
  commas, and each piece is trimmed.
\<close>

definition tokens :: "string list \<Rightarrow> string list" where
  "tokens occurrences =
     concat (map (\<lambda>v. map TrimSpace (Split CHR '','' (TrimSpace v))) occurrences)"

definition beforeFirst :: "char \<Rightarrow> string \<Rightarrow> string" where
  "beforeFirst c s = takeWhile (\<lambda>x. x \<noteq> c) s"

definition afterFirst :: "char \<Rightarrow> string \<Rightarrow> string" where
  "afterFirst c s = drop 1 (dropWhile (\<lambda>x. x \<noteq> c) s)"

text \<open>
  The parser as the specification states it: every token is split on its first \<open>=\<close>
  into a name and a value, the value being empty when the token has no \<open>=\<close>, and a
  later token of the same name overwrites an earlier one.
\<close>

definition directiveAtFirstEquals :: "string \<Rightarrow> string \<times> string" where
  "directiveAtFirstEquals t = (beforeFirst CHR ''='' t, afterFirst CHR ''='' t)"

definition statedCacheControl :: "Header \<Rightarrow> CacheControl" where
  "statedCacheControl h =
     map_of (rev (map directiveAtFirstEquals
       (tokens (case h ''Cache-Control'' of None \<Rightarrow> [] | Some v \<Rightarrow> v))))"

text \<open>
  What a token records, by the number of \<open>=\<close> in it: none, the token with an empty
  value; one, the name before it and the value after it; two or more, nothing.
\<close>

definition recordedDirective :: "string \<Rightarrow> (string \<times> string) option" where
  "recordedDirective t =
     (if count_list t CHR ''='' = 0 then Some (t, [])
      else if count_list t CHR ''='' = 1
      then Some (beforeFirst CHR ''='' t, afterFirst CHR ''='' t)
      else None)"

section \<open>Instances used to evaluate the definitions\<close>

text \<open>
  An instance of \<open>http.ParseTime\<close>: the layout \<open>http.TimeFormat\<close> alone, as in
  \<open>Mon, 02 Jan 2006 15:04:05 GMT\<close>, from year 1 on. What it accepts, \<open>http.ParseTime\<close>
  accepts, at the same instant; the empty string, which \<open>Get\<close> gives for a missing
  header, is refused by both. \<open>http.ParseTime\<close> accepts the RFC 850 and ANSI C layouts as
  well, which this instance refuses: it is applied below only to dates in the first layout
  and to missing headers, and the general statements take the parser as an argument.
\<close>

definition isLeap :: "nat \<Rightarrow> bool" where
  "isLeap y = (y mod 4 = 0 \<and> (0 < y mod 100 \<or> y mod 400 = 0))"

definition daysIn :: "nat \<Rightarrow> nat \<Rightarrow> nat" where
  "daysIn m y =
     (if m = 2 then (if isLeap y then 29 else 28)
      else if m = 4 \<or> m = 6 \<or> m = 9 \<or> m = 11 then 30 else 31)"

definition daysBefore :: "nat \<Rightarrow> nat \<Rightarrow> nat" where
  "daysBefore m y =
     [0, 31, 59, 90, 120, 151, 181, 212, 243, 273, 304, 334] ! (m - 1)
       + (if 2 < m \<and> isLeap y then 1 else 0)"

definition daysSinceYearOne :: "nat \<Rightarrow> nat \<Rightarrow> nat \<Rightarrow> nat" where
  "daysSinceYearOne y m d =
     365 * (y - 1) + (y - 1) div 4 - (y - 1) div 100 + (y - 1) div 400 + daysBefore m y + (d - 1)"

definition monthNumber :: "string \<Rightarrow> nat option" where
  "monthNumber =
     map_of [(''Jan'', 1), (''Feb'', 2), (''Mar'', 3), (''Apr'', 4), (''May'', 5), (''Jun'', 6),
             (''Jul'', 7), (''Aug'', 8), (''Sep'', 9), (''Oct'', 10), (''Nov'', 11), (''Dec'', 12)]"

definition slice :: "nat \<Rightarrow> nat \<Rightarrow> string \<Rightarrow> string" where
  "slice i j s = take (j - i) (drop i s)"

definition parseFixdate :: ParseTime where
  "parseFixdate s =
     (if length s = 29
         \<and> slice 0 3 s \<in> set [''Mon'', ''Tue'', ''Wed'', ''Thu'', ''Fri'', ''Sat'', ''Sun'']
         \<and> slice 3 5 s = '', '' \<and> slice 7 8 s = '' '' \<and> slice 11 12 s = '' ''
         \<and> slice 16 17 s = '' '' \<and> slice 19 20 s = '':'' \<and> slice 22 23 s = '':''
         \<and> slice 25 29 s = '' GMT''
      then
        (case (digits 0 (slice 5 7 s), monthNumber (slice 8 11 s), digits 0 (slice 12 16 s),
               digits 0 (slice 17 19 s), digits 0 (slice 20 22 s), digits 0 (slice 23 25 s)) of
           (Some d, Some m, Some y, Some hh, Some mm, Some ss) \<Rightarrow>
             if 1 \<le> y \<and> 1 \<le> d \<and> d \<le> daysIn m y \<and> hh < 24 \<and> mm < 60 \<and> ss < 60
             then Some (int (((daysSinceYearOne y m d * 24 + hh) * 60 + mm) * 60 + ss) * Second)
             else None
         | _ \<Rightarrow> None)
      else None)"

text \<open>
  Modelled from the spec: the four methods of \<open>CacheControl\<close> that src/ does not
  declare. \<open>NoStore()\<close> and \<open>NoCache()\<close> are "boolean presence checks";
  \<open>NoCacheEquivalent()\<close> is "a zero/negative max-age combined with a mandatory-revalidate
  directive"; \<open>IsPresent()\<close> holds when some cache-control directive is present.
\<close>

definition specMethods :: methods where
  "specMethods =
     \<lparr> IsPresent = (\<lambda>c. c \<noteq> Map.empty),
       NoStore = (\<lambda>c. ''no-store'' \<in> dom c),
       NoCache = (\<lambda>c. ''no-cache'' \<in> dom c),
       NoCacheEquivalent = (\<lambda>c.
          (''must-revalidate'' \<in> dom c \<or> ''proxy-revalidate'' \<in> dom c)
          \<and> (case MaxAge c of Inl err \<Rightarrow> False | Inr maxAge \<Rightarrow> maxAge \<le> 0)) \<rparr>"

text \<open>
  Modelled from the spec: the validator, which src/ does not declare. It "builds a
  conditional re-fetch of the same logical request, attaching, when available, the
  stored entry's validator tokens (\<open>If-None-Match\<close> from a stored \<open>ETag\<close>;
  \<open>If-Modified-Since\<close> from a stored \<open>Last-Modified\<close>)" and "executes exactly one
  outbound fetch attempt": on "not modified" the stored response is kept and tagged as a
  hit, any other response replaces it, and an error of the fetch is returned unchanged.
\<close>

definition conditionalRequest :: "Response \<Rightarrow> Request \<Rightarrow> Request" where
  "conditionalRequest response r =
     (let etag = Header_Get (Header response) ''Etag'';
          lastModified = Header_Get (Header response) ''Last-Modified'';
          h1 = (if etag = [] then RequestHeader r
                else (RequestHeader r)(''If-None-Match'' \<mapsto> [etag]));
          h2 = (if lastModified = [] then h1 else h1(''If-Modified-Since'' \<mapsto> [lastModified]))
      in r\<lparr>RequestHeader := h2\<rparr>)"

definition specValidate ::
    "(Header \<Rightarrow> Header) \<Rightarrow> 'n RoundTripper \<Rightarrow> Response \<Rightarrow> Request \<Rightarrow> 'n
       \<Rightarrow> (error + Response) \<times> 'n" where
  "specValidate hit roundTripper response r n =
     (case roundTripper (conditionalRequest response r) n of
        (Inl err, n') \<Rightarrow> (Inl err, n')
      | (Inr fetched, n') \<Rightarrow>
          if StatusCode fetched = 304
          then (Inr (response\<lparr>Header := hit (Header response)\<rparr>), n')
          else (Inr fetched, n'))"

text \<open>
  Modelled from the spec: \<open>withCacheHitHeader\<close> sets the marker that \<open>isCached\<close> reads,
  and \<open>buildCacheKey\<close> derives the key "purely from request identity".
\<close>

definition specEnv :: "nat env" where
  "specEnv =
     \<lparr> ccMethods = specMethods,
       parseTime = parseFixdate,
       buildCacheKey = (\<lambda>r. Method r @ '' '' @ URL r),
       withCacheHitHeader = (\<lambda>h. h(''X-Cache'' \<mapsto> [''HIT''])),
       Validate = specValidate (\<lambda>h. h(''X-Cache'' \<mapsto> [''HIT''])) \<rparr>"

text \<open>
  An origin that answers every request with the same response, and one that cannot be
  reached; the state of the network is the number of fetches made.
\<close>

definition originServes :: "Response \<Rightarrow> nat RoundTripper" where
  "originServes response r n = (Inr response, Suc n)"

definition originDown :: "nat RoundTripper" where
  "originDown r n = (Inl (TransportError ''connection refused''), Suc n)"

definition exampleRequest :: Request where
  "exampleRequest = \<lparr>Method = ''GET'', URL = ''http://example.com'', RequestHeader = Map.empty\<rparr>"

definition exampleKey :: string where
  "exampleKey = ''GET http://example.com''"

definition storedFresh :: Response where
  "storedFresh =
     \<lparr>StatusCode = 200,
      Header = [''Cache-Control'' \<mapsto> [''max-age=120''],
                ''Date'' \<mapsto> [''Mon, 02 Jan 2006 15:04:05 GMT'']],
      Body = ''stored''\<rparr>"

definition storedStale :: Response where
  "storedStale =
     \<lparr>StatusCode = 200,
      Header = [''Cache-Control'' \<mapsto> [''max-age=0''],
                ''Date'' \<mapsto> [''Mon, 02 Jan 2006 15:04:05 GMT''],
                ''Etag'' \<mapsto> [''123'']],
      Body = ''stored''\<rparr>"

definition replacement :: Response where
  "replacement =
     \<lparr>StatusCode = 200,
      Header = [''Cache-Control'' \<mapsto> [''max-age=100''], ''Etag'' \<mapsto> [''345'']],
      Body = ''new''\<rparr>"

definition bare :: Response where
  "bare = \<lparr>StatusCode = 200, Header = [''Content-Type'' \<mapsto> [''text/html'']], Body = ''new''\<rparr>"

definition oneMinuteLater :: Clock where
  "oneMinuteLater = 63271811105000000000"

definition holding :: "Response \<Rightarrow> nat World" where
  "holding response = \<lparr>store = [exampleKey \<mapsto> response], journal = [], net = 0\<rparr>"


section \<open>Evaluation at concrete values\<close>

lemmas parseFixdate_simps =
  parseFixdate_def slice_def monthNumber_def daysSinceYearOne_def daysBefore_def daysIn_def
  isLeap_def Second_def

lemmas Atoi_simps = Atoi_def unsigned_def inRange_def MinInt64_def MaxInt64_def

lemma parseFixdate_2006:
  "parseFixdate ''Mon, 02 Jan 2006 15:04:05 GMT'' = Some 63271811045000000000"
  by (simp add: parseFixdate_simps)

lemma parseFixdate_empty: "parseFixdate [] = None"
  by (simp add: parseFixdate_def)

lemma MaxAge_100: "MaxAge [''max-age'' \<mapsto> ''100''] = Inr 100"
  by (simp add: MaxAge_def cacheControlKeyMaxAge_def Atoi_simps)

lemma MaxAge_empty: "MaxAge Map.empty = Inl ErrorMaxAgeNotFound"
  by (simp add: MaxAge_def)

lemma specMethods_max_age_100:
  "\<not> NoCache specMethods [''max-age'' \<mapsto> ''100'']"
  "\<not> NoCacheEquivalent specMethods [''max-age'' \<mapsto> ''100'']"
  by (simp_all add: specMethods_def)

lemma specMethods_empty:
  "\<not> NoCache specMethods Map.empty"
  "\<not> NoCacheEquivalent specMethods Map.empty"
  by (simp_all add: specMethods_def)

lemma wrap64_id: "MinInt64 \<le> x \<Longrightarrow> x \<le> MaxInt64 \<Longrightarrow> wrap64 x = x"
  by (simp add: wrap64_def MinInt64_def MaxInt64_def)

lemma MaxAge_120_no_cache:
  "MaxAge [''max-age'' \<mapsto> ''120'', ''no-cache'' \<mapsto> ''''] = Inr 120"
  by (simp add: MaxAge_def cacheControlKeyMaxAge_def Atoi_def unsigned_def inRange_def
      MinInt64_def MaxInt64_def)

lemma ageFromHeader_10: "ageFromHeader [''Age'' \<mapsto> [''10'']] = Inr 10"
  by (simp add: ageFromHeader_def Header_Get_def Atoi_def unsigned_def inRange_def
      MinInt64_def MaxInt64_def)

section \<open>The freshness pipeline\<close>

text \<open>
  C2. Whenever \<open>NoCache()\<close> or \<open>NoCacheEquivalent()\<close> holds of the directive set, the
  pipeline built by \<open>newFreshnerChecker\<close> returns Stale, for every header, every clock
  reading and every outcome of the date parser: the mandatory-revalidation stage comes
  first and no timing stage is consulted.
\<close>

theorem noCache_forces_stale:
  assumes "NoCache m cc \<or> NoCacheEquivalent m cc"
  shows "newFreshnerChecker m parse now header cc = Inr FreshnessStale"
  using assms by (auto simp: newFreshnerChecker_def noCacheFreshness_def)

text \<open>
  At \<open>Cache-Control: max-age=120, no-cache\<close> with \<open>Age: 10\<close> the age stage alone says
  Fresh, and the pipeline says Stale.
\<close>

theorem noCache_forces_stale_witness:
  "NoCache specMethods [''max-age'' \<mapsto> ''120'', ''no-cache'' \<mapsto> '''']
   \<and> ageFreshnessChecker transparentFreshness [''Age'' \<mapsto> [''10'']]
         [''max-age'' \<mapsto> ''120'', ''no-cache'' \<mapsto> ''''] = Inr FreshnessFresh
   \<and> newFreshnerChecker specMethods (\<lambda>s. None) 0 [''Age'' \<mapsto> [''10'']]
         [''max-age'' \<mapsto> ''120'', ''no-cache'' \<mapsto> ''''] = Inr FreshnessStale"
proof -
  have h: "NoCache specMethods [''max-age'' \<mapsto> ''120'', ''no-cache'' \<mapsto> '''']"
    by (simp add: specMethods_def)
  have f: "ageFreshnessChecker transparentFreshness [''Age'' \<mapsto> [''10'']]
         [''max-age'' \<mapsto> ''120'', ''no-cache'' \<mapsto> ''''] = Inr FreshnessFresh"
    by (simp add: ageFreshnessChecker_def MaxAge_120_no_cache ageFromHeader_10
        freshnessFromAge_def wrap64_def)
  from h f noCache_forces_stale
    [of specMethods _ "\<lambda>s. None" 0 "[''Age'' \<mapsto> [''10'']]", OF disjI1 [OF h]]
  show ?thesis by simp
qed

text \<open>
  The age stage, when it applies: the pipeline returns what \<open>freshnessFromAge\<close> returns,
  whatever the \<open>Date\<close> header and the clock; and when \<open>maxAge - age\<close> is an \<open>int\<close>,
  that is Fresh exactly when the difference is positive.
\<close>

lemma ageStage_result:
  assumes "\<not> NoCache m cc" and "\<not> NoCacheEquivalent m cc"
    and "MaxAge cc = Inr maxAge" and "ageFromHeader header = Inr age"
  shows "newFreshnerChecker m parse now header cc
           = Inr (if 0 < wrap64 (maxAge - age) then FreshnessFresh else FreshnessStale)
         \<and> (MinInt64 \<le> maxAge - age \<and> maxAge - age \<le> MaxInt64 \<longrightarrow>
              newFreshnerChecker m parse now header cc
                = Inr (if 0 < maxAge - age then FreshnessFresh else FreshnessStale))"
  using assms
  by (simp add: newFreshnerChecker_def noCacheFreshness_def ageFreshnessChecker_def
      freshnessFromAge_def wrap64_id)

lemma MaxAge_least:
  "MaxAge [''max-age'' \<mapsto> ''-9223372036854775808''] = Inr (- 9223372036854775808)"
  by (simp add: MaxAge_def cacheControlKeyMaxAge_def Atoi_simps)

lemma ageFromHeader_1: "ageFromHeader [''Age'' \<mapsto> [''1'']] = Inr 1"
  by (simp add: ageFromHeader_def Header_Get_def Atoi_simps)

lemma ageFromHeader_least:
  "ageFromHeader [''Age'' \<mapsto> [''-9223372036854775808'']] = Inr (- 9223372036854775808)"
  by (simp add: ageFromHeader_def Header_Get_def Atoi_simps)

lemma specMethods_max_age_least:
  "\<not> NoCache specMethods [''max-age'' \<mapsto> ''-9223372036854775808'']"
  "\<not> NoCacheEquivalent specMethods [''max-age'' \<mapsto> ''-9223372036854775808'']"
  by (simp_all add: specMethods_def)

text \<open>
  C3. The claim is that, when neither \<open>NoCache()\<close> nor \<open>NoCacheEquivalent()\<close> holds,
  \<open>MaxAge()\<close> succeeds and the \<open>Age\<close> header parses, the pipeline returns Fresh exactly
  when MaxAge - Age > 0. At \<open>max-age=-9223372036854775808\<close> with \<open>Age: 1\<close> the difference
  is negative and the pipeline returns Fresh: the subtraction of \<open>freshnessFromAge\<close> wraps
  around to 9223372036854775807. At \<open>max-age=100\<close> with \<open>Age: -9223372036854775808\<close> the
  difference is positive and the pipeline returns Stale.
\<close>

theorem age_difference_wraps:
  "MaxAge [''max-age'' \<mapsto> ''-9223372036854775808''] = Inr (- 9223372036854775808)
   \<and> ageFromHeader [''Age'' \<mapsto> [''1'']] = Inr 1
   \<and> \<not> NoCache specMethods [''max-age'' \<mapsto> ''-9223372036854775808'']
   \<and> \<not> NoCacheEquivalent specMethods [''max-age'' \<mapsto> ''-9223372036854775808'']
   \<and> (- 9223372036854775808 :: int) - 1 < 0
   \<and> newFreshnerChecker specMethods parseFixdate 0 [''Age'' \<mapsto> [''1'']]
        [''max-age'' \<mapsto> ''-9223372036854775808''] = Inr FreshnessFresh
   \<and> MaxAge [''max-age'' \<mapsto> ''100''] = Inr 100
   \<and> ageFromHeader [''Age'' \<mapsto> [''-9223372036854775808'']] = Inr (- 9223372036854775808)
   \<and> \<not> NoCache specMethods [''max-age'' \<mapsto> ''100'']
   \<and> \<not> NoCacheEquivalent specMethods [''max-age'' \<mapsto> ''100'']
   \<and> (0 :: int) < 100 - (- 9223372036854775808)
   \<and> newFreshnerChecker specMethods parseFixdate 0 [''Age'' \<mapsto> [''-9223372036854775808'']]
        [''max-age'' \<mapsto> ''100''] = Inr FreshnessStale"
  by (simp add: MaxAge_least MaxAge_100 ageFromHeader_1 ageFromHeader_least
      specMethods_max_age_least specMethods_max_age_100 newFreshnerChecker_def
      noCacheFreshness_def ageFreshnessChecker_def freshnessFromAge_def wrap64_def)

lemma header_content_type:
  "dateFromHeader parseFixdate [''Content-Type'' \<mapsto> [''text/html'']]
     = Inl ErrorInvalidResponseDate"
  "ageFromHeader [''Content-Type'' \<mapsto> [''text/html'']] = Inl ErrorInvalidMaxAge"
  by (simp_all add: dateFromHeader_def timeFromHeader_def ageFromHeader_def Header_Get_def
      parseFixdate_empty Atoi_def)

text \<open>
  C4. The claim is that, when \<open>MaxAge()\<close> succeeds, no earlier stage applies and the
  \<open>Date\<close> header is missing or does not parse, the max-age/Date stage returns Stale
  rather than delegating. At \<open>Cache-Control: max-age=100\<close> with no \<open>Date\<close> and no \<open>Age\<close>
  header the stage does not return Stale: it hands over to the Expires/Date stage, and
  the pipeline returns Transparent. The zero time that \<open>dateFromHeader\<close> returns with its
  error never reaches the guard of \<open>freshnessFromMaxAge\<close> that answers Stale for it.
\<close>

theorem maxAge_without_date_is_transparent:
  "MaxAge [''max-age'' \<mapsto> ''100''] = Inr 100
   \<and> \<not> NoCache specMethods [''max-age'' \<mapsto> ''100'']
   \<and> \<not> NoCacheEquivalent specMethods [''max-age'' \<mapsto> ''100'']
   \<and> isl (ageFromHeader [''Content-Type'' \<mapsto> [''text/html'']])
   \<and> isl (dateFromHeader parseFixdate [''Content-Type'' \<mapsto> [''text/html'']])
   \<and> maxAgeFreshnessChecker parseFixdate (expireFreshnessChecker parseFixdate transparentFreshness)
        63271811055000000000 [''Content-Type'' \<mapsto> [''text/html'']] [''max-age'' \<mapsto> ''100'']
       \<noteq> Inr FreshnessStale
   \<and> newFreshnerChecker specMethods parseFixdate 63271811055000000000
        [''Content-Type'' \<mapsto> [''text/html'']] [''max-age'' \<mapsto> ''100'']
       = Inr FreshnesTransparent
   \<and> freshnessFromMaxAge 100 0 63271811055000000000 = FreshnessStale"
  by (simp add: header_content_type MaxAge_100 specMethods_max_age_100 newFreshnerChecker_def
      noCacheFreshness_def ageFreshnessChecker_def maxAgeFreshnessChecker_def
      expireFreshnessChecker_def transparentFreshness_def expiresFromHeader_def
      timeFromHeader_def Header_Get_def parseFixdate_empty freshnessFromMaxAge_def IsZero_def
      split: sum.splits)

text \<open>
  C9. When neither \<open>NoCache()\<close> nor \<open>NoCacheEquivalent()\<close> holds, \<open>MaxAge()\<close> fails, and
  \<open>Expires\<close> and \<open>Date\<close> do not both parse, the pipeline returns Transparent.
\<close>

theorem no_signal_transparent:
  assumes "\<not> NoCache m cc" and "\<not> NoCacheEquivalent m cc" and "isl (MaxAge cc)"
    and "isl (expiresFromHeader parse header) \<or> isl (dateFromHeader parse header)"
  shows "newFreshnerChecker m parse now header cc = Inr FreshnesTransparent"
  using assms
  by (auto simp: newFreshnerChecker_def noCacheFreshness_def ageFreshnessChecker_def
      maxAgeFreshnessChecker_def expireFreshnessChecker_def transparentFreshness_def
      split: sum.splits)

lemma header_date_only:
  "isl (expiresFromHeader parseFixdate [''Date'' \<mapsto> [''Mon, 02 Jan 2006 15:04:05 GMT'']])"
  by (simp add: expiresFromHeader_def timeFromHeader_def Header_Get_def parseFixdate_empty)

text \<open>A header with a \<open>Date\<close> and nothing else, and no directive.\<close>

theorem no_signal_transparent_witness:
  "\<not> NoCache specMethods Map.empty \<and> \<not> NoCacheEquivalent specMethods Map.empty
   \<and> isl (MaxAge Map.empty)
   \<and> isl (expiresFromHeader parseFixdate [''Date'' \<mapsto> [''Mon, 02 Jan 2006 15:04:05 GMT'']])
   \<and> newFreshnerChecker specMethods parseFixdate 63271811105000000000
        [''Date'' \<mapsto> [''Mon, 02 Jan 2006 15:04:05 GMT'']] Map.empty = Inr FreshnesTransparent"
proof -
  have m: "isl (MaxAge Map.empty)" by (simp add: MaxAge_empty)
  from no_signal_transparent [OF specMethods_empty m disjI1 [OF header_date_only],
      of 63271811105000000000]
  show ?thesis using m by (simp add: specMethods_empty header_date_only)
qed

text \<open>
  C10. When \<open>Expires\<close> parses and \<open>Date\<close> is missing or does not parse, the
  Expires/Date stage returns what the next stage returns; in the pipeline, with no
  directive that forces revalidation and no usable max-age, the result is Transparent.
\<close>

theorem expire_stage_delegates:
  assumes "expiresFromHeader parse header = Inr expires"
    and "isl (dateFromHeader parse header)"
  shows "expireFreshnessChecker parse next header cc = next header cc
         \<and> (\<not> NoCache m cc \<and> \<not> NoCacheEquivalent m cc \<and> isl (MaxAge cc) \<longrightarrow>
              newFreshnerChecker m parse now header cc = Inr FreshnesTransparent)"
  using assms
  by (auto simp: newFreshnerChecker_def noCacheFreshness_def ageFreshnessChecker_def
      maxAgeFreshnessChecker_def expireFreshnessChecker_def transparentFreshness_def
      split: sum.splits)

lemma header_expires_only:
  "expiresFromHeader parseFixdate [''Expires'' \<mapsto> [''Mon, 02 Jan 2006 15:04:05 GMT'']]
     = Inr 63271811045000000000"
  "isl (dateFromHeader parseFixdate [''Expires'' \<mapsto> [''Mon, 02 Jan 2006 15:04:05 GMT'']])"
  by (simp_all add: expiresFromHeader_def dateFromHeader_def timeFromHeader_def Header_Get_def
      parseFixdate_empty parseFixdate_2006)

text \<open>A header with an \<open>Expires\<close> and no \<open>Date\<close>.\<close>

theorem expire_stage_delegates_witness:
  "expiresFromHeader parseFixdate [''Expires'' \<mapsto> [''Mon, 02 Jan 2006 15:04:05 GMT'']]
     = Inr 63271811045000000000
   \<and> isl (dateFromHeader parseFixdate [''Expires'' \<mapsto> [''Mon, 02 Jan 2006 15:04:05 GMT'']])
   \<and> expireFreshnessChecker parseFixdate (\<lambda>h c. Inr FreshnessStale)
        [''Expires'' \<mapsto> [''Mon, 02 Jan 2006 15:04:05 GMT'']] Map.empty = Inr FreshnessStale
   \<and> newFreshnerChecker specMethods parseFixdate 0
        [''Expires'' \<mapsto> [''Mon, 02 Jan 2006 15:04:05 GMT'']] Map.empty = Inr FreshnesTransparent"
  using expire_stage_delegates [OF header_expires_only,
      of "\<lambda>h c. Inr FreshnessStale" Map.empty specMethods 0]
    header_expires_only specMethods_empty MaxAge_empty
  by simp

text \<open>
  The max-age/Date stage, for a positive max-age whose duration in nanoseconds is an
  \<open>int\<close> and a date that is not the zero time: Fresh up to and including the instant
  \<open>date + maxAge\<close> seconds.
\<close>

lemma freshnessFromMaxAge_iff:
  assumes "0 < maxAge" and "maxAge * Second \<le> MaxInt64" and "\<not> IsZero date"
  shows "freshnessFromMaxAge maxAge date now
           = (if now \<le> date + maxAge * Second then FreshnessFresh else FreshnessStale)"
proof -
  have "MinInt64 \<le> maxAge * Second" using assms(1) by (simp add: MinInt64_def Second_def)
  then have "wrap64 (maxAge * Second) = maxAge * Second"
    using assms(2) by (rule wrap64_id)
  then show ?thesis using assms
    by (auto simp: freshnessFromMaxAge_def After_def Add_def)
qed

lemma header_date:
  "dateFromHeader parseFixdate [''Date'' \<mapsto> [''Mon, 02 Jan 2006 15:04:05 GMT'']]
     = Inr 63271811045000000000"
  "ageFromHeader [''Date'' \<mapsto> [''Mon, 02 Jan 2006 15:04:05 GMT'']] = Inl ErrorInvalidMaxAge"
  by (simp_all add: dateFromHeader_def ageFromHeader_def timeFromHeader_def Header_Get_def
      parseFixdate_2006 Atoi_def)

text \<open>
  C5. At \<open>max-age=100\<close> and a clock that reads exactly \<open>Date\<close> plus 100 seconds, the
  pipeline returns Fresh, where the claim says Stale; \<open>freshnessFromAge\<close> returns Stale
  at the same boundary, age 100 and max-age 100.
\<close>

theorem maxAge_boundary_is_fresh:
  "MaxAge [''max-age'' \<mapsto> ''100''] = Inr 100
   \<and> dateFromHeader parseFixdate [''Date'' \<mapsto> [''Mon, 02 Jan 2006 15:04:05 GMT'']]
       = Inr 63271811045000000000
   \<and> \<not> NoCache specMethods [''max-age'' \<mapsto> ''100'']
   \<and> \<not> NoCacheEquivalent specMethods [''max-age'' \<mapsto> ''100'']
   \<and> isl (ageFromHeader [''Date'' \<mapsto> [''Mon, 02 Jan 2006 15:04:05 GMT'']])
   \<and> (63271811145000000000 :: int) = 63271811045000000000 + 100 * Second
   \<and> newFreshnerChecker specMethods parseFixdate 63271811145000000000
        [''Date'' \<mapsto> [''Mon, 02 Jan 2006 15:04:05 GMT'']] [''max-age'' \<mapsto> ''100'']
       = Inr FreshnessFresh
   \<and> freshnessFromAge 100 100 = FreshnessStale"
  by (simp add: header_date MaxAge_100 specMethods_max_age_100 newFreshnerChecker_def noCacheFreshness_def
      ageFreshnessChecker_def maxAgeFreshnessChecker_def freshnessFromMaxAge_def
      freshnessFromAge_def IsZero_def After_def Add_def wrap64_def Second_def split: sum.splits)

section \<open>The parser of Cache-Control\<close>

lemma Split_not_Nil: "Split c s \<noteq> []"
  by (induction s) (auto split: list.splits)

lemma length_Split: "length (Split c s) = Suc (count_list s c)"
  by (induction s) (auto simp: Split_not_Nil split: list.splits)

lemma Split_absent: "c \<notin> set s \<Longrightarrow> Split c s = [s]"
  by (induction s) auto

lemma Split_first:
  "c \<in> set s \<Longrightarrow> Split c s = beforeFirst c s # Split c (afterFirst c s)"
  by (induction s) (auto simp: beforeFirst_def afterFirst_def Split_absent split: list.splits)

lemma count_afterFirst:
  "c \<in> set s \<Longrightarrow> count_list s c = Suc (count_list (afterFirst c s) c)"
  by (induction s) (auto simp: afterFirst_def)

lemma Split_once:
  assumes "count_list s c = 1"
  shows "Split c s = [beforeFirst c s, afterFirst c s]"
proof -
  from assms have in_s: "c \<in> set s"
    by (metis count_list_0_iff zero_neq_one)
  with assms have "count_list (afterFirst c s) c = 0"
    using count_afterFirst [of c s] by simp
  then have "c \<notin> set (afterFirst c s)" by (simp add: count_list_0_iff)
  then show ?thesis using in_s by (simp add: Split_first Split_absent)
qed

lemma setDirective_recorded:
  "setDirective cc vvv =
     (case recordedDirective (TrimSpace vvv) of None \<Rightarrow> cc | Some (k, v) \<Rightarrow> cc(k \<mapsto> v))"
proof -
  let ?t = "TrimSpace vvv"
  consider "count_list ?t CHR ''='' = 0" | "count_list ?t CHR ''='' = 1"
    | "2 \<le> count_list ?t CHR ''=''" by linarith
  then show ?thesis
  proof cases
    case 1
    then have "Split CHR ''='' ?t = [?t]" by (simp add: Split_absent count_list_0_iff)
    with 1 show ?thesis
      by (simp add: setDirective_def splitCacheControlKeyValue_def recordedDirective_def)
  next
    case 2
    then have "Split CHR ''='' ?t = [beforeFirst CHR ''='' ?t, afterFirst CHR ''='' ?t]"
      by (rule Split_once)
    with 2 show ?thesis
      by (simp add: setDirective_def splitCacheControlKeyValue_def recordedDirective_def)
  next
    case 3
    then have "3 \<le> length (Split CHR ''='' ?t)" by (simp add: length_Split)
    with 3 show ?thesis
      by (simp add: setDirective_def splitCacheControlKeyValue_def recordedDirective_def Let_def)
  qed
qed

lemma map_add_upd_left: "cc(k \<mapsto> v) ++ m = cc ++ ([k \<mapsto> v] ++ m)"
  by (rule ext) (simp add: map_add_def split: option.splits)

lemma map_filter_append:
  "List.map_filter f (xs @ ys) = List.map_filter f xs @ List.map_filter f ys"
  by (simp add: List.map_filter_def)

lemma foldl_setDirective:
  "foldl setDirective cc ts
     = cc ++ map_of (rev (List.map_filter recordedDirective (map TrimSpace ts)))"
proof (induction ts arbitrary: cc)
  case Nil
  then show ?case by (simp add: List.map_filter_simps)
next
  case (Cons t ts)
  let ?rest = "List.map_filter recordedDirective (map TrimSpace ts)"
  show ?case
  proof (cases "recordedDirective (TrimSpace t)")
    case None
    then have "setDirective cc t = cc" by (simp add: setDirective_recorded)
    then have "foldl setDirective cc (t # ts) = foldl setDirective cc ts" by simp
    also have "\<dots> = cc ++ map_of (rev ?rest)" by (rule Cons.IH)
    finally show ?thesis using None by (simp add: List.map_filter_simps)
  next
    case (Some kv)
    obtain k v where kv: "kv = (k, v)" by (cases kv)
    with Some have "setDirective cc t = cc(k \<mapsto> v)"
      by (simp add: setDirective_recorded)
    then have "foldl setDirective cc (t # ts) = foldl setDirective (cc(k \<mapsto> v)) ts" by simp
    also have "\<dots> = cc(k \<mapsto> v) ++ map_of (rev ?rest)" by (rule Cons.IH)
    also have "\<dots> = cc ++ ([k \<mapsto> v] ++ map_of (rev ?rest))" by (rule map_add_upd_left)
    also have "[k \<mapsto> v] ++ map_of (rev ?rest) = map_of (rev ((k, v) # ?rest))" by simp
    finally show ?thesis using Some kv by (simp add: List.map_filter_simps)
  qed
qed

lemma foldl_occurrences:
  "foldl (\<lambda>cc vv. foldl setDirective cc (splitCacheControl vv)) cc vs
     = cc ++ map_of (rev (List.map_filter recordedDirective (tokens vs)))"
proof (induction vs arbitrary: cc)
  case Nil
  then show ?case by (simp add: tokens_def List.map_filter_simps)
next
  case (Cons v vs)
  let ?f = "\<lambda>cc vv. foldl setDirective cc (splitCacheControl vv)"
  let ?here = "List.map_filter recordedDirective (map TrimSpace (splitCacheControl v))"
  let ?rest = "List.map_filter recordedDirective (tokens vs)"
  have tk: "tokens (v # vs) = map TrimSpace (splitCacheControl v) @ tokens vs"
    by (simp add: tokens_def splitCacheControl_def)
  have "foldl ?f cc (v # vs) = foldl ?f (foldl setDirective cc (splitCacheControl v)) vs"
    by simp
  also have "\<dots> = foldl setDirective cc (splitCacheControl v) ++ map_of (rev ?rest)"
    by (rule Cons.IH)
  also have "\<dots> = (cc ++ map_of (rev ?here)) ++ map_of (rev ?rest)"
    by (simp only: foldl_setDirective)
  also have "\<dots> = cc ++ map_of (rev (?here @ ?rest))"
    by (simp add: map_add_assoc)
  finally show ?case by (simp only: tk map_filter_append)
qed

text \<open>
  C8, as amended. For every header, the directive set that \<open>newCacheControl\<close> builds is
  read off the tokens of the occurrences of \<open>Cache-Control\<close>, each occurrence trimmed and
  split on commas, each token trimmed: a token without \<open>=\<close> is recorded as present with
  an empty value, a token with exactly one \<open>=\<close> is recorded as the name before it and
  the value after it, a token with two or more \<open>=\<close> is not recorded, and of the
  tokens recorded under one name the last one gives the value.
\<close>

theorem newCacheControl_recorded:
  "newCacheControl h =
     map_of (rev (List.map_filter recordedDirective
       (tokens (case h ''Cache-Control'' of None \<Rightarrow> [] | Some v \<Rightarrow> v))))"
  by (cases "h ''Cache-Control''")
     (simp_all add: newCacheControl_def foldl_occurrences tokens_def List.map_filter_simps)

lemmas trim_simps = TrimSpace_def trimLeft.simps spaceLen_def spaceRunes_def

lemma TrimSpace_examples:
  "TrimSpace ''max-age=120'' = ''max-age=120''"
  "TrimSpace ''max-age=100'' = ''max-age=100''"
  "TrimSpace ''max-age=0'' = ''max-age=0''"
  "TrimSpace ''max-age=0, no-store'' = ''max-age=0, no-store''"
  "TrimSpace '' no-store'' = ''no-store''"
  "TrimSpace ''public, token=abc=='' = ''public, token=abc==''"
  "TrimSpace ''public'' = ''public''"
  "TrimSpace '' token=abc=='' = ''token=abc==''"
  by (simp_all add: trim_simps)

lemma setDirective_examples:
  "setDirective cc ''max-age=120'' = cc(''max-age'' \<mapsto> ''120'')"
  "setDirective cc ''max-age=100'' = cc(''max-age'' \<mapsto> ''100'')"
  "setDirective cc ''max-age=0'' = cc(''max-age'' \<mapsto> ''0'')"
  "setDirective cc '' no-store'' = cc(''no-store'' \<mapsto> [])"
  "setDirective cc ''public'' = cc(''public'' \<mapsto> [])"
  "setDirective cc '' token=abc=='' = cc"
  by (simp_all add: setDirective_def splitCacheControlKeyValue_def TrimSpace_examples)

lemma splitCacheControl_examples:
  "splitCacheControl ''max-age=120'' = [''max-age=120'']"
  "splitCacheControl ''max-age=100'' = [''max-age=100'']"
  "splitCacheControl ''max-age=0'' = [''max-age=0'']"
  "splitCacheControl ''max-age=0, no-store'' = [''max-age=0'', '' no-store'']"
  "splitCacheControl ''public, token=abc=='' = [''public'', '' token=abc=='']"
  by (simp_all add: splitCacheControl_def TrimSpace_examples)

lemma tokens_examples:
  "tokens [''public, token=abc==''] = [''public'', ''token=abc=='']"
  "tokens [''max-age=0, no-store'', ''max-age=100''] = [''max-age=0'', ''no-store'', ''max-age=100'']"
  by (simp_all add: tokens_def TrimSpace_examples)

lemma recordedDirective_examples:
  "recordedDirective ''max-age=0'' = Some (''max-age'', ''0'')"
  "recordedDirective ''no-store'' = Some (''no-store'', [])"
  "recordedDirective ''max-age=100'' = Some (''max-age'', ''100'')"
  by (simp_all add: recordedDirective_def beforeFirst_def afterFirst_def)

text \<open>
  C8 as stated fails at \<open>Cache-Control: public, token=abc==\<close>: split on its first
  \<open>=\<close>, the second token is the directive \<open>token\<close> with the value \<open>abc==\<close>;
  \<open>newCacheControl\<close> records no directive \<open>token\<close>.
\<close>

theorem first_equals_counterexample:
  "statedCacheControl [''Cache-Control'' \<mapsto> [''public, token=abc=='']] ''token'' = Some ''abc==''
   \<and> newCacheControl [''Cache-Control'' \<mapsto> [''public, token=abc=='']] ''token'' = None
   \<and> newCacheControl [''Cache-Control'' \<mapsto> [''public, token=abc=='']]
       \<noteq> statedCacheControl [''Cache-Control'' \<mapsto> [''public, token=abc=='']]"
proof -
  have a: "statedCacheControl [''Cache-Control'' \<mapsto> [''public, token=abc=='']] ''token''
      = Some ''abc==''"
    by (simp add: statedCacheControl_def tokens_examples directiveAtFirstEquals_def
        beforeFirst_def afterFirst_def)
  have b: "newCacheControl [''Cache-Control'' \<mapsto> [''public, token=abc=='']] ''token'' = None"
    by (simp add: newCacheControl_def splitCacheControl_examples setDirective_examples)
  from a b have "newCacheControl [''Cache-Control'' \<mapsto> [''public, token=abc=='']]
       \<noteq> statedCacheControl [''Cache-Control'' \<mapsto> [''public, token=abc=='']]"
    by (metis option.distinct(1))
  with a b show ?thesis by (simp only: simp_thms)
qed

text \<open>
  At the occurrences \<open>max-age=0, no-store\<close> and \<open>max-age=100\<close>: the later
  \<open>max-age\<close> wins, \<open>no-store\<close> is present with an empty value, \<open>public\<close> is absent.
\<close>

theorem newCacheControl_recorded_witness:
  "newCacheControl [''Cache-Control'' \<mapsto> [''max-age=0, no-store'', ''max-age=100'']] ''max-age''
     = Some ''100''
   \<and> newCacheControl [''Cache-Control'' \<mapsto> [''max-age=0, no-store'', ''max-age=100'']] ''no-store''
     = Some []
   \<and> newCacheControl [''Cache-Control'' \<mapsto> [''max-age=0, no-store'', ''max-age=100'']] ''public''
     = None"
proof -
  have "newCacheControl [''Cache-Control'' \<mapsto> [''max-age=0, no-store'', ''max-age=100'']]
      = map_of (rev (List.map_filter recordedDirective
          (tokens [''max-age=0, no-store'', ''max-age=100''])))"
    using newCacheControl_recorded [of "[''Cache-Control'' \<mapsto> [''max-age=0, no-store'', ''max-age=100'']]"]
    by simp
  then show ?thesis
    by (simp add: tokens_examples recordedDirective_examples List.map_filter_simps)
qed

section \<open>The transport\<close>

lemma Header_examples:
  "Header storedFresh = [''Cache-Control'' \<mapsto> [''max-age=120''],
                          ''Date'' \<mapsto> [''Mon, 02 Jan 2006 15:04:05 GMT'']]"
  "Header storedStale = [''Cache-Control'' \<mapsto> [''max-age=0''],
                          ''Date'' \<mapsto> [''Mon, 02 Jan 2006 15:04:05 GMT''],
                          ''Etag'' \<mapsto> [''123'']]"
  "Header replacement = [''Cache-Control'' \<mapsto> [''max-age=100''], ''Etag'' \<mapsto> [''345'']]"
  "Header bare = [''Content-Type'' \<mapsto> [''text/html'']]"
  by (simp_all add: storedFresh_def storedStale_def replacement_def bare_def)

lemma newCacheControl_examples:
  "newCacheControl (Header storedFresh) = [''max-age'' \<mapsto> ''120'']"
  "newCacheControl (Header storedStale) = [''max-age'' \<mapsto> ''0'']"
  "newCacheControl (Header replacement) = [''max-age'' \<mapsto> ''100'']"
  "newCacheControl (Header bare) = Map.empty"
  by (simp_all add: Header_examples newCacheControl_def splitCacheControl_examples
      setDirective_examples)

lemma key_example: "buildCacheKey specEnv exampleRequest = exampleKey"
  by (simp add: specEnv_def exampleRequest_def exampleKey_def)

lemma NewTransport_WithClock:
  "clock (NewTransport now roundTripper [WithClock c]) = c"
  "rt (NewTransport now roundTripper [WithClock c]) = roundTripper"
  "shouldCachePrivateResponses (NewTransport now roundTripper [WithClock c]) = False"
  by (simp_all add: NewTransport_def WithClock_def)

lemma MaxAge_examples:
  "MaxAge [''max-age'' \<mapsto> ''120''] = Inr 120"
  "MaxAge [''max-age'' \<mapsto> ''0''] = Inr 0"
  by (simp_all add: MaxAge_def cacheControlKeyMaxAge_def Atoi_simps)

lemma stored_dates:
  "dateFromHeader parseFixdate (Header storedFresh) = Inr 63271811045000000000"
  "dateFromHeader parseFixdate (Header storedStale) = Inr 63271811045000000000"
  "ageFromHeader (Header storedFresh) = Inl ErrorInvalidMaxAge"
  "ageFromHeader (Header storedStale) = Inl ErrorInvalidMaxAge"
  by (simp_all add: Header_examples dateFromHeader_def ageFromHeader_def timeFromHeader_def
      Header_Get_def parseFixdate_2006 Atoi_def)

lemma specMethods_stored:
  "\<not> NoCache specMethods [''max-age'' \<mapsto> ''120'']"
  "\<not> NoCacheEquivalent specMethods [''max-age'' \<mapsto> ''120'']"
  "\<not> NoStore specMethods [''max-age'' \<mapsto> ''120'']"
  "\<not> NoCache specMethods [''max-age'' \<mapsto> ''0'']"
  "\<not> NoCacheEquivalent specMethods [''max-age'' \<mapsto> ''0'']"
  "\<not> NoStore specMethods [''max-age'' \<mapsto> ''0'']"
  "\<not> NoStore specMethods [''max-age'' \<mapsto> ''100'']"
  "IsPresent specMethods [''max-age'' \<mapsto> ''100'']"
  "\<not> IsPresent specMethods Map.empty"
  by (simp_all add: specMethods_def)

lemma env_fields:
  "ccMethods specEnv = specMethods"
  "parseTime specEnv = parseFixdate"
  "withCacheHitHeader specEnv h = h(''X-Cache'' \<mapsto> [''HIT''])"
  "Validate specEnv = specValidate (\<lambda>h. h(''X-Cache'' \<mapsto> [''HIT'']))"
  by (simp_all add: specEnv_def)

lemma fresh_storedFresh:
  "freshnessChecker specEnv (NewTransport 0 roundTripper [WithClock oneMinuteLater])
     (Header storedFresh) (newCacheControl (Header storedFresh)) = Inr FreshnessFresh"
  by (simp add: freshnessChecker_def newCacheControl_examples NewTransport_WithClock env_fields
      newFreshnerChecker_def noCacheFreshness_def specMethods_stored ageFreshnessChecker_def
      maxAgeFreshnessChecker_def MaxAge_examples stored_dates freshnessFromMaxAge_def
      IsZero_def After_def Add_def wrap64_def Second_def oneMinuteLater_def)

lemma stale_storedStale:
  "freshnessChecker specEnv (NewTransport 0 roundTripper [WithClock oneMinuteLater])
     (Header storedStale) (newCacheControl (Header storedStale)) = Inr FreshnessStale"
  by (simp add: freshnessChecker_def newCacheControl_examples NewTransport_WithClock env_fields
      newFreshnerChecker_def noCacheFreshness_def specMethods_stored ageFreshnessChecker_def
      maxAgeFreshnessChecker_def MaxAge_examples stored_dates freshnessFromMaxAge_def)

lemma validate_replacement:
  "Validate specEnv (originServes replacement) storedStale exampleRequest 0
     = (Inr replacement, Suc 0)"
  by (simp add: env_fields specValidate_def originServes_def replacement_def)

lemma validate_down:
  "Validate specEnv originDown storedStale exampleRequest 0
     = (Inl (TransportError ''connection refused''), Suc 0)"
  by (simp add: env_fields specValidate_def originDown_def)

lemma not_cached_replacement: "\<not> isCached replacement"
  by (simp add: isCached_def Header_examples Header_Get_def)

lemma store_holding:
  "store (holding response) (buildCacheKey specEnv exampleRequest) = Some response"
  by (simp add: holding_def key_example)

lemma pipeline_total: "\<exists>f. newFreshnerChecker m parse now header cc = Inr f"
  by (simp add: newFreshnerChecker_def noCacheFreshness_def ageFreshnessChecker_def
      maxAgeFreshnessChecker_def expireFreshnessChecker_def transparentFreshness_def
      split: sum.splits)

text \<open>
  When \<open>withCacheHitHeader\<close> sets the marker that \<open>isCached\<close> reads, the response of a
  fresh hit carries it.
\<close>

lemma fresh_hit_isCached:
  assumes "\<And>h. Header_Get (withCacheHitHeader e h) ''X-Cache'' = ''HIT''"
  shows "isCached (response\<lparr>Header := withCacheHitHeader e (Header response)\<rparr>)"
  using assms by (simp add: isCached_def)

text \<open>
  A hit, by the classification of the stored response. The backend sees the lookup; the
  network is touched by the validator and by the fetch of the last case only.
\<close>

lemma hit_by_classification:
  assumes "store w (buildCacheKey e r) = Some response"
    and "freshnessChecker e t (Header response) (newCacheControl (Header response)) = Inr f"
  shows "(f = FreshnessFresh \<longrightarrow>
            RoundTrip e t r w =
              (Inr (response\<lparr>Header := withCacheHitHeader e (Header response)\<rparr>),
               w\<lparr>journal := journal w @ [CacheGet (buildCacheKey e r)]\<rparr>))
       \<and> (f = FreshnessStale \<longrightarrow>
            (\<forall>response' n. Validate e (rt t) response r (net w) = (Inr response', n) \<longrightarrow>
               RoundTrip e t r w =
                 (Inr response',
                  if NoStore (ccMethods e) (newCacheControl (Header response))
                  then w\<lparr>net := n, store := (store w)(buildCacheKey e r := None),
                         journal := journal w @ [CacheGet (buildCacheKey e r),
                                                 CacheDelete (buildCacheKey e r)]\<rparr>
                  else if isCached response'
                  then w\<lparr>net := n, journal := journal w @ [CacheGet (buildCacheKey e r)]\<rparr>
                  else w\<lparr>net := n, store := (store w)(buildCacheKey e r \<mapsto> response'),
                         journal := journal w @ [CacheGet (buildCacheKey e r),
                                                 CacheSet (buildCacheKey e r) response']\<rparr>)))
       \<and> (f = FreshnesTransparent \<longrightarrow>
            RoundTrip e t r w =
              (fst (rt t r (net w)),
               w\<lparr>net := snd (rt t r (net w)),
                  journal := journal w @ [CacheGet (buildCacheKey e r)]\<rparr>))"
  using assms
  by (auto simp: RoundTrip_def roundTripWithCachedResponse_def HTTPCache_Get_def
      HTTPCache_Set_def HTTPCache_Delete_def Let_def split: prod.splits)

text \<open>
  C1. When the lookup of the request's key hits, the freshness checker classifies the
  stored response and \<open>RoundTrip\<close> acts on the classification. Fresh: it returns the
  stored response with the header that \<open>withCacheHitHeader\<close> gives, the network
  untouched and the backend seeing only the lookup. Stale: it runs the validator, and when
  that returns a response, the stored entry is deleted if \<open>NoStore()\<close> holds of the
  directive set, left as it is if the response carries the hit marker, and otherwise
  overwritten with the response, which carries no marker; in each case the response is
  returned. Transparent: it returns what a fetch of the request returns, and the backend
  sees only the lookup.
\<close>

theorem cache_hit_by_freshness:
  assumes "store w (buildCacheKey e r) = Some response"
  shows "\<exists>f. freshnessChecker e t (Header response) (newCacheControl (Header response)) = Inr f
       \<and> (f = FreshnessFresh \<longrightarrow>
            RoundTrip e t r w =
              (Inr (response\<lparr>Header := withCacheHitHeader e (Header response)\<rparr>),
               w\<lparr>journal := journal w @ [CacheGet (buildCacheKey e r)]\<rparr>))
       \<and> (f = FreshnessStale \<longrightarrow>
            (\<forall>response' n. Validate e (rt t) response r (net w) = (Inr response', n) \<longrightarrow>
               RoundTrip e t r w =
                 (Inr response',
                  if NoStore (ccMethods e) (newCacheControl (Header response))
                  then w\<lparr>net := n, store := (store w)(buildCacheKey e r := None),
                         journal := journal w @ [CacheGet (buildCacheKey e r),
                                                 CacheDelete (buildCacheKey e r)]\<rparr>
                  else if isCached response'
                  then w\<lparr>net := n, journal := journal w @ [CacheGet (buildCacheKey e r)]\<rparr>
                  else w\<lparr>net := n, store := (store w)(buildCacheKey e r \<mapsto> response'),
                         journal := journal w @ [CacheGet (buildCacheKey e r),
                                                 CacheSet (buildCacheKey e r) response']\<rparr>)))
       \<and> (f = FreshnesTransparent \<longrightarrow>
            RoundTrip e t r w =
              (fst (rt t r (net w)),
               w\<lparr>net := snd (rt t r (net w)),
                  journal := journal w @ [CacheGet (buildCacheKey e r)]\<rparr>))"
proof -
  obtain f where f: "freshnessChecker e t (Header response) (newCacheControl (Header response)) = Inr f"
    unfolding freshnessChecker_def
    using pipeline_total [of "ccMethods e" "parseTime e" "clock t" "Header response"
        "newCacheControl (Header response)"]
    by blast
  from hit_by_classification [OF assms f] f show ?thesis by blast
qed

lemma journal_holding:
  "(holding response)\<lparr>journal := journal (holding response) @ [CacheGet exampleKey]\<rparr>
     = \<lparr>store = [exampleKey \<mapsto> response], journal = [CacheGet exampleKey], net = 0\<rparr>"
  by (simp add: holding_def)

text \<open>
  A stored response with \<open>max-age=120\<close>, one minute old, is served as a hit by a
  transport whose origin cannot be reached. A stored response with \<open>max-age=0\<close> and
  \<open>Etag: 123\<close>, whose revalidation is answered 200 with \<open>Etag: 345\<close>, is replaced in
  the backend, and the answer is returned without the marker.
\<close>

theorem cache_hit_by_freshness_witness:
  "store (holding storedFresh) (buildCacheKey specEnv exampleRequest) = Some storedFresh
   \<and> RoundTrip specEnv (NewTransport 0 originDown [WithClock oneMinuteLater])
        exampleRequest (holding storedFresh)
       = (Inr (storedFresh\<lparr>Header := (Header storedFresh)(''X-Cache'' \<mapsto> [''HIT''])\<rparr>),
          \<lparr>store = [exampleKey \<mapsto> storedFresh], journal = [CacheGet exampleKey], net = 0\<rparr>)
   \<and> store (holding storedStale) (buildCacheKey specEnv exampleRequest) = Some storedStale
   \<and> RoundTrip specEnv (NewTransport 0 (originServes replacement) [WithClock oneMinuteLater])
        exampleRequest (holding storedStale)
       = (Inr replacement,
          \<lparr>store = [exampleKey \<mapsto> replacement],
           journal = [CacheGet exampleKey, CacheSet exampleKey replacement], net = Suc 0\<rparr>)
   \<and> \<not> isCached replacement"
proof -
  let ?down = "NewTransport 0 originDown [WithClock oneMinuteLater]"
  let ?up = "NewTransport 0 (originServes replacement) [WithClock oneMinuteLater]"
  have "RoundTrip specEnv ?down exampleRequest (holding storedFresh) =
        (Inr (storedFresh\<lparr>Header := withCacheHitHeader specEnv (Header storedFresh)\<rparr>),
         (holding storedFresh)\<lparr>journal := journal (holding storedFresh)
            @ [CacheGet (buildCacheKey specEnv exampleRequest)]\<rparr>)"
    using cache_hit_by_freshness [where t = ?down, OF store_holding [of storedFresh]]
    by (simp add: fresh_storedFresh)
  then have a: "RoundTrip specEnv ?down exampleRequest (holding storedFresh) =
        (Inr (storedFresh\<lparr>Header := (Header storedFresh)(''X-Cache'' \<mapsto> [''HIT''])\<rparr>),
         \<lparr>store = [exampleKey \<mapsto> storedFresh], journal = [CacheGet exampleKey], net = 0\<rparr>)"
    by (simp only: env_fields key_example journal_holding)
  have v: "Validate specEnv (rt ?up) storedStale exampleRequest (net (holding storedStale))
             = (Inr replacement, Suc 0)"
    by (simp add: NewTransport_WithClock holding_def validate_replacement)
  have ns: "\<not> NoStore (ccMethods specEnv) (newCacheControl (Header storedStale))"
    by (simp add: env_fields newCacheControl_examples specMethods_stored)
  have "RoundTrip specEnv ?up exampleRequest (holding storedStale) =
           (Inr replacement,
            (holding storedStale)\<lparr>net := Suc 0,
                   store := (store (holding storedStale))
                     (buildCacheKey specEnv exampleRequest \<mapsto> replacement),
                   journal := journal (holding storedStale)
                     @ [CacheGet (buildCacheKey specEnv exampleRequest),
                        CacheSet (buildCacheKey specEnv exampleRequest) replacement]\<rparr>)"
    using cache_hit_by_freshness [where t = ?up, OF store_holding [of storedStale]]
      v ns not_cached_replacement
    by (simp add: stale_storedStale)
  then have b: "RoundTrip specEnv ?up exampleRequest (holding storedStale) =
           (Inr replacement,
            \<lparr>store = [exampleKey \<mapsto> replacement],
             journal = [CacheGet exampleKey, CacheSet exampleKey replacement], net = Suc 0\<rparr>)"
    by (simp add: key_example holding_def)
  from a b show ?thesis
    by (simp only: store_holding not_cached_replacement simp_thms)
qed






text \<open>
  C7. On a stale hit whose revalidation returns an error, \<open>RoundTrip\<close> returns that very
  error; the backend sees the lookup and neither a \<open>Set\<close> nor a \<open>Delete\<close>, and holds the
  entries it held. This is so for every validator; with the validator of the
  specification, which returns the error of its one fetch, it is so whenever the
  conditional fetch fails.
\<close>

theorem revalidation_error_propagates:
  assumes "store w (buildCacheKey e r) = Some response"
    and "freshnessChecker e t (Header response) (newCacheControl (Header response))
           = Inr FreshnessStale"
  shows "(\<forall>err n. Validate e (rt t) response r (net w) = (Inl err, n) \<longrightarrow>
            RoundTrip e t r w =
              (Inl err, w\<lparr>net := n, journal := journal w @ [CacheGet (buildCacheKey e r)]\<rparr>))
       \<and> (Validate e = specValidate (withCacheHitHeader e) \<longrightarrow>
            (\<forall>err n. rt t (conditionalRequest response r) (net w) = (Inl err, n) \<longrightarrow>
               RoundTrip e t r w =
                 (Inl err, w\<lparr>net := n, journal := journal w @ [CacheGet (buildCacheKey e r)]\<rparr>)))"
proof -
  have general: "RoundTrip e t r w =
      (Inl err, w\<lparr>net := n, journal := journal w @ [CacheGet (buildCacheKey e r)]\<rparr>)"
    if "Validate e (rt t) response r (net w) = (Inl err, n)" for err n
    using assms that
    by (simp add: RoundTrip_def roundTripWithCachedResponse_def HTTPCache_Get_def Let_def)
  have "Validate e (rt t) response r (net w) = (Inl err, n)"
    if "Validate e = specValidate (withCacheHitHeader e)"
      and "rt t (conditionalRequest response r) (net w) = (Inl err, n)" for err n
    using that by (simp add: specValidate_def)
  with general show ?thesis by blast
qed

lemma fetch_down:
  "rt (NewTransport 0 originDown [WithClock oneMinuteLater])
      (conditionalRequest storedStale exampleRequest) (net (holding storedStale))
     = (Inl (TransportError ''connection refused''), Suc 0)"
  by (simp add: NewTransport_WithClock originDown_def holding_def)

lemma validate_is_spec: "Validate specEnv = specValidate (withCacheHitHeader specEnv)"
  by (simp add: specEnv_def)

text \<open>
  The stale entry of above, and an origin that cannot be reached: the error of the fetch
  comes back and the entry stays.
\<close>

theorem revalidation_error_propagates_witness:
  "store (holding storedStale) (buildCacheKey specEnv exampleRequest) = Some storedStale
   \<and> freshnessChecker specEnv (NewTransport 0 originDown [WithClock oneMinuteLater])
        (Header storedStale) (newCacheControl (Header storedStale)) = Inr FreshnessStale
   \<and> Validate specEnv = specValidate (withCacheHitHeader specEnv)
   \<and> rt (NewTransport 0 originDown [WithClock oneMinuteLater])
        (conditionalRequest storedStale exampleRequest) (net (holding storedStale))
       = (Inl (TransportError ''connection refused''), Suc 0)
   \<and> RoundTrip specEnv (NewTransport 0 originDown [WithClock oneMinuteLater])
        exampleRequest (holding storedStale)
       = (Inl (TransportError ''connection refused''),
          \<lparr>store = [exampleKey \<mapsto> storedStale], journal = [CacheGet exampleKey],
           net = Suc 0\<rparr>)"
proof -
  have "RoundTrip specEnv (NewTransport 0 originDown [WithClock oneMinuteLater])
        exampleRequest (holding storedStale)
       = (Inl (TransportError ''connection refused''),
          (holding storedStale)\<lparr>net := Suc 0,
             journal := journal (holding storedStale)
               @ [CacheGet (buildCacheKey specEnv exampleRequest)]\<rparr>)"
    using revalidation_error_propagates [OF store_holding [of storedStale] stale_storedStale,
        of originDown] validate_is_spec fetch_down
    by simp
  then have "RoundTrip specEnv (NewTransport 0 originDown [WithClock oneMinuteLater])
        exampleRequest (holding storedStale)
       = (Inl (TransportError ''connection refused''),
          \<lparr>store = [exampleKey \<mapsto> storedStale], journal = [CacheGet exampleKey],
           net = Suc 0\<rparr>)"
    by (simp add: key_example holding_def)
  then show ?thesis
    by (simp only: store_holding stale_storedStale validate_is_spec fetch_down simp_thms)
qed

end
